theory Spec2Isabelle
  imports Main
begin

section \<open>Python values and exceptions\<close>

text \<open>
  A Python \<open>str\<close> is a sequence of code points; it is modelled as a \<^typ>\<open>string\<close>, each
  \<^typ>\<open>char\<close> standing for one code point below 256.

  The exceptions are the classes that \<open>GUI.on_button_clicked\<close> tells apart. The
  arguments of a \<open>ValueError\<close> are kept, because its handler joins them; an argument
  is either a \<open>str\<close> or some other object. \<open>RequestIdMismatch\<close> and \<open>WrongPassword\<close>
  are imported from \<open>rcon.exceptions\<close>, \<open>timeout\<close> from \<open>socket\<close>; they are taken as
  classes of their own, none a subclass of another handled class. Every other class is
  \<open>OtherError\<close> with its name.
\<close>

datatype pyarg = Str string | NonStr

datatype exn =
    ValueError "pyarg list"
  | ConnectionRefusedError
  | timeout
  | RequestIdMismatch
  | WrongPassword
  | OtherError string

subsection \<open>The builtin \<open>int(str)\<close> in base 10\<close>

text \<open>
  \<open>int\<close> skips white space on both sides (the six ASCII white-space characters, and of
  the code points from 127 to 255 the two that Unicode counts as white space, NEL and
  NBSP), reads one optional sign, then decimal digits among which single underscores
  may stand between two digits. Leading zeros are read. Any other character (a NUL
  included) makes it raise \<open>ValueError\<close>, here \<open>None\<close>. The interpreter refuses
  literals of more digits than its limit \<open>max_str_digits\<close> (4300 unless configured,
  0 for no limit; the check starts above 640 digits), with a \<open>ValueError\<close> too.
\<close>

definition is_space :: "char \<Rightarrow> bool" where
  "is_space c = ((of_char c :: nat) \<in> {9, 10, 11, 12, 13, 32, 133, 160})"

definition is_digit :: "char \<Rightarrow> bool" where
  "is_digit c = (48 \<le> (of_char c :: nat) \<and> (of_char c :: nat) \<le> 57)"

definition digit_value :: "char \<Rightarrow> int" where
  "digit_value c = int (of_char c) - 48"

definition is_digit_or_underscore :: "char \<Rightarrow> bool" where
  "is_digit_or_underscore c = (is_digit c \<or> c = CHR ''_'')"

fun double_underscore :: "string \<Rightarrow> bool" where
  "double_underscore (a # b # cs) =
     ((a = CHR ''_'' \<and> b = CHR ''_'') \<or> double_underscore (b # cs))"
| "double_underscore _ = False"

definition strip_sign :: "string \<Rightarrow> int \<times> string" where
  "strip_sign s =
     (case s of
        [] \<Rightarrow> (1, [])
      | c # cs \<Rightarrow>
          if c = CHR ''+'' then (1, cs)
          else if c = CHR ''-'' then (- 1, cs)
          else (1, s))"

definition digits_value :: "string \<Rightarrow> int" where
  "digits_value ds = foldl (\<lambda>acc c. 10 * acc + digit_value c) 0 ds"

definition py_int :: "nat \<Rightarrow> string \<Rightarrow> int option" where
  "py_int max_str_digits s =
     (let (sign, s2) = strip_sign (dropWhile is_space s);
          body = takeWhile is_digit_or_underscore s2;
          rest = dropWhile is_digit_or_underscore s2;
          digits = filter is_digit body
      in if body = [] then None
         else if hd body = CHR ''_'' then None
         else if double_underscore body then None
         else if last body = CHR ''_'' then None
         else if filter (\<lambda>c. \<not> is_space c) rest \<noteq> [] then None
         else if 640 < length digits \<and> 0 < max_str_digits
                 \<and> max_str_digits < length digits then None
         else Some (sign * digits_value digits))"

subsection \<open>The builtin \<open>str(int)\<close>\<close>

definition digit_char :: "nat \<Rightarrow> char" where
  "digit_char d = ''0123456789'' ! d"

function digits_of :: "nat \<Rightarrow> string" where
  "digits_of n =
     (if n < 10 then [digit_char n] else digits_of (n div 10) @ [digit_char (n mod 10)])"
  by pat_completeness auto
termination
  by (relation "measure id") auto

declare digits_of.simps [simp del]

definition py_str :: "int \<Rightarrow> string" where
  "py_str i = (if i < 0 then CHR ''-'' # digits_of (nat (- i)) else digits_of (nat i))"

subsection \<open>\<open>str.join\<close> on exception arguments\<close>

text \<open>
  \<open>' '.join(args)\<close> puts one space between the items and raises \<open>TypeError\<close>
  (here \<open>None\<close>) when an item is not a \<open>str\<close>.
\<close>

fun join_args :: "pyarg list \<Rightarrow> string option" where
  "join_args [] = Some []"
| "join_args (NonStr # _) = None"
| "join_args [Str s] = Some s"
| "join_args (Str s # a # as) =
     (case join_args (a # as) of None \<Rightarrow> None | Some t \<Rightarrow> Some (s @ '' '' @ t))"

section \<open>The data of \<open>rcon.gui\<close>\<close>

text \<open>
  \<open>RCONParams\<close> is the named tuple of the source. \<open>GUI\<close> holds the texts of the five
  entries and the state of the check button; \<open>get_text\<close> and \<open>set_text\<close> read and write
  a field.
\<close>

record GUI =
  host :: string
  port :: string
  passwd :: string
  command :: string
  result :: string
  savepw :: bool

record RCONParams =
  host :: string
  port :: int
  passwd :: string
  command :: string

section \<open>\<open>GUI.get_rcon_params\<close>\<close>

definition get_rcon_params :: "nat \<Rightarrow> GUI \<Rightarrow> exn + RCONParams" where
  "get_rcon_params max_str_digits self =
     (if GUI.host self = [] then Inl (ValueError [Str ''No host specified.''])
      else if GUI.port self = [] then Inl (ValueError [Str ''No port specified.''])
      else if GUI.command self = [] then Inl (ValueError [Str ''No command entered.''])
      else case py_int max_str_digits (GUI.port self) of
             None \<Rightarrow> Inl (ValueError [Str ''Invalid port specified.''])
           | Some p \<Rightarrow>
               if \<not> (0 \<le> p \<and> p \<le> 65535)
               then Inl (ValueError [Str ''Invalid port specified.''])
               else Inr \<lparr>host = GUI.host self, port = p,
                         passwd = GUI.passwd self, command = GUI.command self\<rparr>)"

section \<open>The client collaborator\<close>

text \<open>
  Modelled from the spec: the class \<open>rcon.proto.Client\<close>, which \<open>run_rcon\<close> uses as a
  context manager and whose code is not part of the source at hand. The spec describes
  it as an opaque capability: acquiring a connection for a host and a port, with the
  password, which may fail; running one command on the session, which may fail; release
  on scope exit. The runner is therefore defined for any collaborator, given by its four
  operations on a state \<open>'w\<close> of the outside world: the constructor, \<open>__enter__\<close>,
  \<open>run\<close> and \<open>__exit__\<close>. Each may raise; \<open>__exit__\<close> is told the exception that
  left the body, if any, and answers whether to suppress it.
\<close>

record ('m, 'c, 'w) Client =
  client_init :: "string \<Rightarrow> int \<Rightarrow> string \<Rightarrow> 'w \<Rightarrow> (exn + 'm) \<times> 'w"
  client_enter :: "'m \<Rightarrow> 'w \<Rightarrow> (exn + 'c) \<times> 'w"
  client_run :: "'c \<Rightarrow> string \<Rightarrow> 'w \<Rightarrow> (exn + string) \<times> 'w"
  client_exit :: "'m \<Rightarrow> exn option \<Rightarrow> 'w \<Rightarrow> (exn + bool) \<times> 'w"

text \<open>
  What the program does to its surroundings is logged: the calls on the collaborator and
  the error dialogs of \<open>show_error\<close>, in the order they happen.
\<close>

datatype event =
    CallInit string int string
  | CallEnter
  | CallRun string
  | CallExit "exn option"
  | ShowError string

section \<open>\<open>GUI.run_rcon\<close>\<close>

text \<open>
  The head of the \<open>with\<close> statement: the constructor, then \<open>__enter__\<close>. When either
  raises, the body is not run and \<open>__exit__\<close> is not called.
\<close>

definition acquire ::
  "('m, 'c, 'w) Client \<Rightarrow> RCONParams \<Rightarrow> 'w \<Rightarrow> (exn + 'm \<times> 'c) \<times> event list \<times> 'w" where
  "acquire cl params w =
     (let init = CallInit (host params) (port params) (passwd params) in
      case client_init cl (host params) (port params) (passwd params) w of
        (Inl e, w1) \<Rightarrow> (Inl e, [init], w1)
      | (Inr mgr, w1) \<Rightarrow>
          (case client_enter cl mgr w1 of
             (Inl e, w2) \<Rightarrow> (Inl e, [init, CallEnter], w2)
           | (Inr client, w2) \<Rightarrow> (Inr (mgr, client), [init, CallEnter], w2)))"

text \<open>
  The body \<open>return client.run(params.command)\<close> and the exit of the \<open>with\<close> statement.
  When \<open>__exit__\<close> suppresses an exception of the body, control leaves the statement
  normally and the function returns \<open>None\<close>.
\<close>

definition run_body ::
  "('m, 'c, 'w) Client \<Rightarrow> RCONParams \<Rightarrow> 'm \<Rightarrow> 'c \<Rightarrow> 'w
     \<Rightarrow> (exn + string option) \<times> event list \<times> 'w" where
  "run_body cl params mgr client w =
     (case client_run cl client (command params) w of
        (Inr text, w1) \<Rightarrow>
          (case client_exit cl mgr None w1 of
             (Inl e, w2) \<Rightarrow> (Inl e, [CallRun (command params), CallExit None], w2)
           | (Inr _, w2) \<Rightarrow> (Inr (Some text), [CallRun (command params), CallExit None], w2))
      | (Inl e, w1) \<Rightarrow>
          (case client_exit cl mgr (Some e) w1 of
             (Inl e', w2) \<Rightarrow> (Inl e', [CallRun (command params), CallExit (Some e)], w2)
           | (Inr suppress, w2) \<Rightarrow>
               (if suppress then Inr None else Inl e,
                [CallRun (command params), CallExit (Some e)], w2)))"

definition with_Client ::
  "('m, 'c, 'w) Client \<Rightarrow> RCONParams \<Rightarrow> 'w \<Rightarrow> (exn + string option) \<times> event list \<times> 'w" where
  "with_Client cl params w =
     (case acquire cl params w of
        (Inl e, ev, w1) \<Rightarrow> (Inl e, ev, w1)
      | (Inr (mgr, client), ev, w1) \<Rightarrow>
          (case run_body cl params mgr client w1 of
             (r, ev', w2) \<Rightarrow> (r, ev @ ev', w2)))"

definition run_rcon ::
  "('m, 'c, 'w) Client \<Rightarrow> nat \<Rightarrow> GUI \<Rightarrow> 'w \<Rightarrow> (exn + string option) \<times> event list \<times> 'w" where
  "run_rcon cl max_str_digits self w =
     (case get_rcon_params max_str_digits self of
        Inl e \<Rightarrow> (Inl e, [], w)
      | Inr params \<Rightarrow> with_Client cl params w)"

section \<open>\<open>GUI.on_button_clicked\<close>\<close>

text \<open>
  The result is the exception that leaves the handler, if any, the window, the log and
  the outside world. \<open>Gtk.Entry.set_text\<close> raises \<open>TypeError\<close> for \<open>None\<close>, and so does
  \<open>str.join\<close> for an item that is not a \<open>str\<close>; neither is caught here.
\<close>

definition on_button_clicked ::
  "('m, 'c, 'w) Client \<Rightarrow> nat \<Rightarrow> GUI \<Rightarrow> 'w \<Rightarrow> exn option \<times> GUI \<times> event list \<times> 'w" where
  "on_button_clicked cl max_str_digits self w =
     (case run_rcon cl max_str_digits self w of
        (Inl (ValueError args), ev, w1) \<Rightarrow>
          (case join_args args of
             None \<Rightarrow> (Some (OtherError ''TypeError''), self, ev, w1)
           | Some message \<Rightarrow> (None, self, ev @ [ShowError message], w1))
      | (Inl ConnectionRefusedError, ev, w1) \<Rightarrow>
          (None, self, ev @ [ShowError ''Connection refused.''], w1)
      | (Inl timeout, ev, w1) \<Rightarrow>
          (None, self, ev @ [ShowError ''Connection timed out.''], w1)
      | (Inl RequestIdMismatch, ev, w1) \<Rightarrow>
          (None, self, ev @ [ShowError ''Request ID mismatch.''], w1)
      | (Inl WrongPassword, ev, w1) \<Rightarrow>
          (None, self, ev @ [ShowError ''Invalid password.''], w1)
      | (Inl (OtherError n), ev, w1) \<Rightarrow> (Some (OtherError n), self, ev, w1)
      | (Inr None, ev, w1) \<Rightarrow> (Some (OtherError ''TypeError''), self, ev, w1)
      | (Inr (Some text), ev, w1) \<Rightarrow> (None, self\<lparr>result := text\<rparr>, ev, w1))"

section \<open>\<open>GUI.gui_settings\<close>\<close>

text \<open>
  The settings are a \<open>dict\<close> from keys to JSON values. The getter builds texts and one
  boolean. The setter may meet any value: \<open>set_text\<close> takes a \<open>str\<close> only and raises
  \<open>TypeError\<close> otherwise, \<open>set_active\<close> takes the truth value of its argument, which
  \<open>JOther\<close> carries for the values that are neither text nor boolean. The setter
  assigns field after field, so an exception leaves the fields before it assigned.
\<close>

datatype jval = JStr string | JBool bool | JOther bool

definition gui_settings :: "GUI \<Rightarrow> (string \<rightharpoonup> jval)" where
  "gui_settings self =
     (let json = [''host'' \<mapsto> JStr (GUI.host self),
                  ''port'' \<mapsto> JStr (GUI.port self),
                  ''command'' \<mapsto> JStr (GUI.command self),
                  ''result'' \<mapsto> JStr (result self),
                  ''savepw'' \<mapsto> JBool (savepw self)]
      in if savepw self then json(''passwd'' \<mapsto> JStr (GUI.passwd self)) else json)"

definition get_text_arg :: "jval option \<Rightarrow> exn + string" where
  "get_text_arg v =
     (case v of
        None \<Rightarrow> Inr []
      | Some (JStr s) \<Rightarrow> Inr s
      | Some _ \<Rightarrow> Inl (OtherError ''TypeError''))"

definition truth :: "jval option \<Rightarrow> bool" where
  "truth v =
     (case v of
        None \<Rightarrow> False
      | Some (JStr s) \<Rightarrow> s \<noteq> []
      | Some (JBool b) \<Rightarrow> b
      | Some (JOther b) \<Rightarrow> b)"

definition set_gui_settings :: "(string \<rightharpoonup> jval) \<Rightarrow> GUI \<Rightarrow> exn option \<times> GUI" where
  "set_gui_settings json self =
     (case get_text_arg (json ''host'') of Inl e \<Rightarrow> (Some e, self) | Inr h \<Rightarrow>
      let self = self\<lparr>GUI.host := h\<rparr> in
      case get_text_arg (json ''port'') of Inl e \<Rightarrow> (Some e, self) | Inr p \<Rightarrow>
      let self = self\<lparr>GUI.port := p\<rparr> in
      case get_text_arg (json ''passwd'') of Inl e \<Rightarrow> (Some e, self) | Inr pw \<Rightarrow>
      let self = self\<lparr>GUI.passwd := pw\<rparr> in
      case get_text_arg (json ''command'') of Inl e \<Rightarrow> (Some e, self) | Inr c \<Rightarrow>
      let self = self\<lparr>GUI.command := c\<rparr> in
      case get_text_arg (json ''result'') of Inl e \<Rightarrow> (Some e, self) | Inr r \<Rightarrow>
      let self = self\<lparr>result := r\<rparr> in
      (None, self\<lparr>savepw := truth (json ''savepw'')\<rparr>))"

section \<open>The validation order as the specification words it\<close>

text \<open>
  The specification lists five checks, applied in this order, each with its message;
  the message surfaced is that of the first check that fails.
\<close>

datatype check = HostEmpty | PortEmpty | CommandEmpty | PortUnparseable | PortOutOfRange

definition check_order :: "check list" where
  "check_order = [HostEmpty, PortEmpty, CommandEmpty, PortUnparseable, PortOutOfRange]"

fun check_fails :: "nat \<Rightarrow> GUI \<Rightarrow> check \<Rightarrow> bool" where
  "check_fails lim self HostEmpty = (GUI.host self = [])"
| "check_fails lim self PortEmpty = (GUI.port self = [])"
| "check_fails lim self CommandEmpty = (GUI.command self = [])"
| "check_fails lim self PortUnparseable = (py_int lim (GUI.port self) = None)"
| "check_fails lim self PortOutOfRange =
     (case py_int lim (GUI.port self) of
        None \<Rightarrow> False
      | Some p \<Rightarrow> p < 0 \<or> 65535 < p)"

fun check_message :: "check \<Rightarrow> string" where
  "check_message HostEmpty = ''No host specified.''"
| "check_message PortEmpty = ''No port specified.''"
| "check_message CommandEmpty = ''No command entered.''"
| "check_message PortUnparseable = ''Invalid port specified.''"
| "check_message PortOutOfRange = ''Invalid port specified.''"

definition first_failure :: "nat \<Rightarrow> GUI \<Rightarrow> check option" where
  "first_failure lim self = find (check_fails lim self) check_order"

text \<open>Re-serialising validated parameters, and the canonical decimal texts.\<close>

definition serialize :: "RCONParams \<Rightarrow> string \<times> string \<times> string \<times> string" where
  "serialize params = (host params, py_str (port params), passwd params, command params)"

definition canonical_decimal :: "string \<Rightarrow> bool" where
  "canonical_decimal p =
     (p \<noteq> [] \<and> filter (\<lambda>c. \<not> is_digit c) p = [] \<and> (p = ''0'' \<or> hd p \<noteq> CHR ''0''))"

section \<open>Counting the calls on the collaborator\<close>

fun is_exit :: "event \<Rightarrow> bool" where
  "is_exit (CallExit _) = True"
| "is_exit _ = False"

fun is_run :: "event \<Rightarrow> bool" where
  "is_run (CallRun _) = True"
| "is_run _ = False"

fun is_show_error :: "event \<Rightarrow> bool" where
  "is_show_error (ShowError _) = True"
| "is_show_error _ = False"

definition exit_calls :: "event list \<Rightarrow> nat" where
  "exit_calls ev = length (filter is_exit ev)"

definition run_calls :: "event list \<Rightarrow> nat" where
  "run_calls ev = length (filter is_run ev)"

section \<open>A test double of the collaborator\<close>

text \<open>
  Modelled from the spec: a stand-in for \<open>rcon.proto.Client\<close> that behaves as the
  specification describes the remote service. Acquiring the connection is the single
  point where a network fault surfaces (\<open>connect_fault\<close>); the password given to the
  constructor is then checked against the one the service expects, a mismatch being the
  wrong-password fault; \<open>run\<close> answers with \<open>reply\<close>; \<open>__exit__\<close> closes the connection
  and suppresses nothing. The world counts the connections opened and closed.
\<close>

record world =
  opened :: nat
  closed :: nat

definition double_client ::
  "exn option \<Rightarrow> string \<Rightarrow> (string \<Rightarrow> exn + string)
     \<Rightarrow> (string \<times> int \<times> string, unit, world) Client" where
  "double_client connect_fault expected reply =
     \<lparr>client_init = (\<lambda>h p pw w. (Inr (h, p, pw), w)),
      client_enter = (\<lambda>m w.
        case connect_fault of
          Some e \<Rightarrow> (Inl e, w)
        | None \<Rightarrow>
            if snd (snd m) = expected then (Inr (), w\<lparr>opened := opened w + 1\<rparr>)
            else (Inl WrongPassword, w\<lparr>opened := opened w + 1\<rparr>)),
      client_run = (\<lambda>c cmd w. (reply cmd, w)),
      client_exit = (\<lambda>m e w. (Inr False, w\<lparr>closed := closed w + 1\<rparr>))\<rparr>"

definition example_gui :: "string \<Rightarrow> string \<Rightarrow> string \<Rightarrow> string \<Rightarrow> GUI" where
  "example_gui h p pw c =
     \<lparr>GUI.host = h, GUI.port = p, GUI.passwd = pw, GUI.command = c,
      result = ''old'', savepw = False\<rparr>"

definition fresh_world :: world where
  "fresh_world = \<lparr>opened = 0, closed = 0\<rparr>"

definition reply_players :: "string \<Rightarrow> exn + string" where
  "reply_players cmd = Inr ''players: 3''"

definition reply_mismatch :: "string \<Rightarrow> exn + string" where
  "reply_mismatch cmd = Inl RequestIdMismatch"

definition reply_value_error :: "string \<Rightarrow> exn + string" where
  "reply_value_error cmd = Inl (ValueError [Str ''boom''])"

definition reply_wrong_password :: "string \<Rightarrow> exn + string" where
  "reply_wrong_password cmd = Inl WrongPassword"

section \<open>Evaluating the builtins\<close>

lemmas py_int_eval = py_int_def strip_sign_def is_space_def is_digit_or_underscore_def
  is_digit_def digits_value_def digit_value_def

lemma example_gui_fields:
  "GUI.host (example_gui h p pw c) = h"
  "GUI.port (example_gui h p pw c) = p"
  "GUI.passwd (example_gui h p pw c) = pw"
  "GUI.command (example_gui h p pw c) = c"
  "result (example_gui h p pw c) = ''old''"
  "savepw (example_gui h p pw c) = False"
  by (simp_all add: example_gui_def)

section \<open>Validation\<close>

lemma get_rcon_params_Inl_shape:
  "get_rcon_params lim self = Inl e \<Longrightarrow>
     e = ValueError [Str ''No host specified.''] \<or> e = ValueError [Str ''No port specified.'']
     \<or> e = ValueError [Str ''No command entered.'']
     \<or> e = ValueError [Str ''Invalid port specified.'']"
  unfolding get_rcon_params_def
  by (cases "GUI.host self = []"; cases "GUI.port self = []"; cases "GUI.command self = []";
      cases "py_int lim (GUI.port self)") (simp_all split: if_splits)

text \<open>
  Claim C2. The checks are applied in the order host emptiness, port emptiness, command
  emptiness, port parseability, port range, and the failure raised carries the message
  of the first check that fails; validation succeeds exactly when no check fails. The
  messages are those of \<^const>\<open>check_message\<close>, parse and range failures sharing one.
\<close>

theorem validation_order:
  "(case get_rcon_params lim self of Inl e \<Rightarrow> Some e | Inr params \<Rightarrow> None)
     = map_option (\<lambda>ch. ValueError [Str (check_message ch)]) (first_failure lim self)"
  by (simp add: get_rcon_params_def first_failure_def check_order_def split: option.splits)

text \<open>An empty host together with an empty port yields the message of the host.\<close>

theorem validation_order_witness:
  "first_failure 4300 (example_gui [] [] ''pw'' ''status'') = Some HostEmpty
   \<and> get_rcon_params 4300 (example_gui [] [] ''pw'' ''status'')
       = Inl (ValueError [Str ''No host specified.''])"
  using validation_order [of 4300 "example_gui [] [] ''pw'' ''status''"]
  by (simp add: first_failure_def check_order_def example_gui_def split: sum.splits)

text \<open>
  Claim C6. With host, port and command not empty and the port text read by \<open>int\<close> as
  \<open>p\<close>: outside 0 to 65535 validation fails with the message of an invalid port,
  inside, the endpoints included, it succeeds and the parameters carry \<open>p\<close>.
\<close>

theorem port_range:
  assumes "GUI.host self \<noteq> []" and "GUI.port self \<noteq> []" and "GUI.command self \<noteq> []"
    and "py_int lim (GUI.port self) = Some p"
  shows "(p < 0 \<or> 65535 < p \<longrightarrow>
            get_rcon_params lim self = Inl (ValueError [Str ''Invalid port specified.'']))
       \<and> (0 \<le> p \<and> p \<le> 65535 \<longrightarrow>
            get_rcon_params lim self =
              Inr \<lparr>host = GUI.host self, port = p, passwd = GUI.passwd self,
                   command = GUI.command self\<rparr>)"
  using assms by (auto simp: get_rcon_params_def)

theorem port_range_witness:
  "get_rcon_params 4300 (example_gui ''h'' ''65535'' [] ''status'')
     = Inr \<lparr>host = ''h'', port = 65535, passwd = [], command = ''status''\<rparr>
   \<and> get_rcon_params 4300 (example_gui ''h'' ''0'' [] ''status'')
     = Inr \<lparr>host = ''h'', port = 0, passwd = [], command = ''status''\<rparr>
   \<and> get_rcon_params 4300 (example_gui ''h'' ''65536'' [] ''status'')
     = Inl (ValueError [Str ''Invalid port specified.''])
   \<and> get_rcon_params 4300 (example_gui ''h'' ''-1'' [] ''status'')
     = Inl (ValueError [Str ''Invalid port specified.''])"
proof -
  have a: "py_int 4300 (GUI.port (example_gui ''h'' ''65535'' [] ''status'')) = Some 65535"
    by (simp add: py_int_eval example_gui_def)
  have b: "py_int 4300 (GUI.port (example_gui ''h'' ''0'' [] ''status'')) = Some 0"
    by (simp add: py_int_eval example_gui_def)
  have c: "py_int 4300 (GUI.port (example_gui ''h'' ''65536'' [] ''status'')) = Some 65536"
    by (simp add: py_int_eval example_gui_def)
  have d: "py_int 4300 (GUI.port (example_gui ''h'' ''-1'' [] ''status'')) = Some (- 1)"
    by (simp add: py_int_eval example_gui_def)
  have h: "GUI.host (example_gui ''h'' p [] ''status'') \<noteq> []" for p
    by (simp add: example_gui_def)
  have k: "GUI.command (example_gui ''h'' p [] ''status'') \<noteq> []" for p
    by (simp add: example_gui_def)
  have p: "GUI.port (example_gui ''h'' ''65535'' [] ''status'') \<noteq> []"
    "GUI.port (example_gui ''h'' ''0'' [] ''status'') \<noteq> []"
    "GUI.port (example_gui ''h'' ''65536'' [] ''status'') \<noteq> []"
    "GUI.port (example_gui ''h'' ''-1'' [] ''status'') \<noteq> []"
    by (simp_all add: example_gui_def)
  have g1: "get_rcon_params 4300 (example_gui ''h'' ''65535'' [] ''status'')
     = Inr \<lparr>host = ''h'', port = 65535, passwd = [], command = ''status''\<rparr>"
    using port_range [OF h p(1) k a] by (simp add: example_gui_fields)
  have g2: "get_rcon_params 4300 (example_gui ''h'' ''0'' [] ''status'')
     = Inr \<lparr>host = ''h'', port = 0, passwd = [], command = ''status''\<rparr>"
    using port_range [OF h p(2) k b] by (simp add: example_gui_fields)
  have g3: "get_rcon_params 4300 (example_gui ''h'' ''65536'' [] ''status'')
     = Inl (ValueError [Str ''Invalid port specified.''])"
    using port_range [OF h p(3) k c] by simp
  have g4: "get_rcon_params 4300 (example_gui ''h'' ''-1'' [] ''status'')
     = Inl (ValueError [Str ''Invalid port specified.''])"
    using port_range [OF h p(4) k d] by simp
  show ?thesis using g1 g2 g3 g4 by simp
qed

text \<open>
  Claim C9. The password takes no part in validation: changing it, to the empty text
  or to any other, changes neither whether validation succeeds nor its failure, and the
  parameters of a success carry the password as it was entered.
\<close>

theorem password_unconstrained:
  "get_rcon_params lim (self\<lparr>GUI.passwd := pw\<rparr>)
     = (case get_rcon_params lim self of
          Inl e \<Rightarrow> Inl e
        | Inr params \<Rightarrow> Inr (params\<lparr>passwd := pw\<rparr>))
   \<and> (\<forall>params. get_rcon_params lim self = Inr params \<longrightarrow> passwd params = GUI.passwd self)"
  by (auto simp: get_rcon_params_def split: option.splits)

theorem password_unconstrained_witness:
  "get_rcon_params 4300 (example_gui ''h'' ''27015'' [] ''status'')
     = Inr \<lparr>host = ''h'', port = 27015, passwd = [], command = ''status''\<rparr>"
proof -
  have a: "py_int 4300 ''27015'' = Some 27015" by (simp add: py_int_eval)
  have b: "get_rcon_params 4300 (example_gui ''h'' ''27015'' ''secret'' ''status'')
     = Inr \<lparr>host = ''h'', port = 27015, passwd = ''secret'', command = ''status''\<rparr>"
    using a by (simp add: get_rcon_params_def example_gui_def)
  have c: "(example_gui ''h'' ''27015'' ''secret'' ''status'')\<lparr>GUI.passwd := []\<rparr>
     = example_gui ''h'' ''27015'' [] ''status''"
    by (simp add: example_gui_def)
  show ?thesis
    using password_unconstrained [where lim = 4300 and pw = "[]"
        and self = "example_gui ''h'' ''27015'' ''secret'' ''status''"]
    by (simp add: b c)
qed

section \<open>Reading and printing decimal numerals\<close>

lemma below_ten: "(d::nat) < 10 \<Longrightarrow> d = 0 \<or> d = 1 \<or> d = 2 \<or> d = 3 \<or> d = 4 \<or> d = 5 \<or> d = 6
    \<or> d = 7 \<or> d = 8 \<or> d = 9"
  by arith

lemma digit_char_props:
  assumes "d < 10"
  shows "is_digit (digit_char d)" and "digit_value (digit_char d) = int d"
    and "(digit_char d = CHR ''0'') = (d = 0)"
    and "\<not> is_space (digit_char d)" and "digit_char d \<noteq> CHR ''+''"
    and "digit_char d \<noteq> CHR ''-''" and "digit_char d \<noteq> CHR ''_''"
  using below_ten [OF assms]
  by (elim disjE; simp add: digit_char_def is_digit_def digit_value_def is_space_def)+

lemma char_of_digit_codes:
  "char_of (48::nat) = CHR ''0''" "char_of (49::nat) = CHR ''1''" "char_of (50::nat) = CHR ''2''"
  "char_of (51::nat) = CHR ''3''" "char_of (52::nat) = CHR ''4''" "char_of (53::nat) = CHR ''5''"
  "char_of (54::nat) = CHR ''6''" "char_of (55::nat) = CHR ''7''" "char_of (56::nat) = CHR ''8''"
  "char_of (57::nat) = CHR ''9''"
  by code_simp+

lemma of_char_eq_char_of: "(of_char c :: nat) = n \<Longrightarrow> c = char_of n"
  by auto

lemma is_digit_cases:
  assumes "is_digit c"
  shows "c = CHR ''0'' \<or> c = CHR ''1'' \<or> c = CHR ''2'' \<or> c = CHR ''3'' \<or> c = CHR ''4''
    \<or> c = CHR ''5'' \<or> c = CHR ''6'' \<or> c = CHR ''7'' \<or> c = CHR ''8'' \<or> c = CHR ''9''"
proof -
  have "(of_char c :: nat) = 48 \<or> (of_char c :: nat) = 49 \<or> (of_char c :: nat) = 50
     \<or> (of_char c :: nat) = 51 \<or> (of_char c :: nat) = 52 \<or> (of_char c :: nat) = 53
     \<or> (of_char c :: nat) = 54 \<or> (of_char c :: nat) = 55 \<or> (of_char c :: nat) = 56
     \<or> (of_char c :: nat) = 57"
    using assms unfolding is_digit_def by arith
  then show ?thesis
    by (auto dest!: of_char_eq_char_of simp: char_of_digit_codes)
qed

lemma is_digit_props:
  assumes "is_digit c"
  shows "digit_char (nat (digit_value c)) = c" and "0 \<le> digit_value c" and "digit_value c < 10"
    and "\<not> is_space c" and "c \<noteq> CHR ''+''" and "c \<noteq> CHR ''-''" and "c \<noteq> CHR ''_''"
  using is_digit_cases [OF assms]
  by (elim disjE; simp add: digit_char_def digit_value_def is_space_def)+


lemma digits_value_snoc: "digits_value (ds @ [c]) = 10 * digits_value ds + digit_value c"
  by (simp add: digits_value_def)

lemma digits_value_nonneg: "\<forall>c\<in>set ds. is_digit c \<Longrightarrow> 0 \<le> digits_value ds"
proof (induction ds rule: rev_induct)
  case Nil
  show ?case by (simp add: digits_value_def)
next
  case (snoc c ds)
  then have "0 \<le> digits_value ds" and "0 \<le> digit_value c"
    by (simp_all add: is_digit_props)
  then show ?case by (simp add: digits_value_snoc)
qed

lemma no_double_underscore: "CHR ''_'' \<notin> set ds \<Longrightarrow> \<not> double_underscore ds"
  by (induction ds rule: double_underscore.induct) auto

lemma py_int_all_digits:
  assumes "ds \<noteq> []" and "\<forall>c\<in>set ds. is_digit c"
  shows "py_int lim ds =
    (if 640 < length ds \<and> 0 < lim \<and> lim < length ds then None else Some (digits_value ds))"
proof -
  obtain c cs where ds: "ds = c # cs" using assms(1) by (cases ds) auto
  have c: "is_digit c" using assms(2) ds by simp
  have sp: "dropWhile is_space ds = ds"
    using is_digit_props(4) [OF c] ds by simp
  have sg: "strip_sign ds = (1, ds)"
    using is_digit_props(5,6) [OF c] ds by (simp add: strip_sign_def)
  have all: "\<forall>c\<in>set ds. is_digit_or_underscore c"
    using assms(2) by (simp add: is_digit_or_underscore_def)
  have tk: "takeWhile is_digit_or_underscore ds = ds"
    using all by (simp add: takeWhile_eq_all_conv)
  have dr: "dropWhile is_digit_or_underscore ds = []"
    using all by simp
  have nu: "CHR ''_'' \<notin> set ds"
    using assms(2) is_digit_props(7) by blast
  have hd: "hd ds \<noteq> CHR ''_''" using nu ds by auto
  have la: "last ds \<noteq> CHR ''_''" using nu assms(1) last_in_set by metis
  have du: "\<not> double_underscore ds" using nu by (rule no_double_underscore)
  have fl: "filter is_digit ds = ds" using assms(2) by simp
  show ?thesis
    unfolding py_int_def sp sg
    by (simp add: tk dr hd la du fl assms(1))
qed

lemma digits_of_props:
  "digits_of n \<noteq> [] \<and> (\<forall>c\<in>set (digits_of n). is_digit c)
     \<and> digits_value (digits_of n) = int n
     \<and> (0 < n \<longrightarrow> hd (digits_of n) \<noteq> CHR ''0'')"
proof (induction n rule: digits_of.induct)
  case (1 n)
  show ?case
  proof (cases "n < 10")
    case True
    then show ?thesis
      by (simp add: digits_of.simps [of n] digit_char_props digits_value_def)
  next
    case False
    then have pos: "0 < n div 10" by simp
    have m: "n mod 10 < 10" by simp
    note ih = "1.IH" [OF False]
    have ar: "10 * int (n div 10) + int (n mod 10) = int n"
      by presburger
    show ?thesis
      using ih pos False ar
      by (simp add: digits_of.simps [of n] digit_char_props [OF m] digits_value_snoc)
  qed
qed

lemma digits_of_length: "n < 10 ^ k \<Longrightarrow> 0 < k \<Longrightarrow> length (digits_of n) \<le> k"
proof (induction n arbitrary: k rule: digits_of.induct)
  case (1 n)
  show ?case
  proof (cases "n < 10")
    case True
    then show ?thesis using "1.prems" by (simp add: digits_of.simps [of n])
  next
    case False
    then obtain j where k: "k = Suc j" and j: "0 < j"
      using "1.prems" by (cases k; cases "k - 1") auto
    have "n div 10 < 10 ^ j" using "1.prems"(1) k by (simp add: less_mult_imp_div_less)
    from "1.IH" [OF False this j] show ?thesis
      using False k by (simp add: digits_of.simps [of n])
  qed
qed

lemma digits_of_digits_value:
  assumes "\<forall>c\<in>set ds. is_digit c" and "ds = [] \<or> hd ds \<noteq> CHR ''0''"
  shows "(ds \<noteq> [] \<longrightarrow> 0 < digits_value ds \<and> digits_of (nat (digits_value ds)) = ds)"
  using assms
proof (induction ds rule: rev_induct)
  case Nil
  show ?case by simp
next
  case (snoc c ds)
  have c: "is_digit c" using snoc.prems(1) by simp
  note cp = is_digit_props [OF c]
  show ?case
  proof (cases "ds = []")
    case True
    then have c0: "c \<noteq> CHR ''0''" using snoc.prems(2) by simp
    have v: "digits_value [c] = digit_value c" by (simp add: digits_value_def)
    have "digit_value c \<noteq> 0"
      using c0 cp(1) by (auto simp: digit_char_def)
    then have pos: "0 < digit_value c" using cp(2) by simp
    have lt: "nat (digit_value c) < 10" using cp(2,3) by simp
    have "digits_of (nat (digit_value c)) = [c]"
      using lt cp(1) by (simp add: digits_of.simps [of "nat (digit_value c)"])
    then show ?thesis using True pos v by simp
  next
    case False
    then have hd: "hd ds \<noteq> CHR ''0''" using snoc.prems(2) by simp
    have ih: "0 < digits_value ds" "digits_of (nat (digits_value ds)) = ds"
      using snoc.IH snoc.prems(1) hd False by simp_all
    let ?v = "10 * digits_value ds + digit_value c"
    have big: "\<not> nat ?v < 10" using ih(1) cp(2) by simp
    have dv: "nat ?v div 10 = nat (digits_value ds)"
      using ih(1) cp(2,3) by (simp add: nat_div_distrib nat_add_distrib nat_mult_distrib)
    have md: "nat ?v mod 10 = nat (digit_value c)"
      using ih(1) cp(2,3) by (simp add: nat_mod_distrib nat_add_distrib nat_mult_distrib)
    have "digits_of (nat ?v) = ds @ [c]"
      using big by (simp add: digits_of.simps [of "nat ?v"] dv md ih(2) cp(1))
    moreover have "0 < ?v" using ih(1) cp(2) by simp
    ultimately show ?thesis by (simp add: digits_value_snoc)
  qed
qed

lemma py_int_py_str:
  assumes "0 \<le> p" and "p \<le> 65535"
  shows "py_int lim (py_str p) = Some p"
proof -
  note d = digits_of_props [of "nat p"]
  have "nat p < 10 ^ 5" using assms by simp
  then have "length (digits_of (nat p)) \<le> 5" by (rule digits_of_length) simp
  then have "\<not> 640 < length (digits_of (nat p))" by simp
  then have "py_int lim (digits_of (nat p)) = Some (digits_value (digits_of (nat p)))"
    using d by (simp add: py_int_all_digits)
  then show ?thesis using d assms(1) by (simp add: py_str_def)
qed

lemma canonical_py_str:
  assumes "0 \<le> p"
  shows "canonical_decimal (py_str p)"
proof -
  note d = digits_of_props [of "nat p"]
  have all: "filter (\<lambda>c. \<not> is_digit c) (digits_of (nat p)) = []"
    using d by (simp add: filter_empty_conv)
  have "digits_of (nat p) = ''0'' \<or> hd (digits_of (nat p)) \<noteq> CHR ''0''"
  proof (cases "nat p = 0")
    case True
    then show ?thesis by (simp add: digits_of.simps [of 0] digit_char_def)
  next
    case False
    then show ?thesis using d by simp
  qed
  then show ?thesis
    using d all assms unfolding canonical_decimal_def py_str_def by simp
qed

lemma py_str_of_canonical:
  assumes "canonical_decimal q" and "py_int lim q = Some p"
  shows "py_str p = q"
proof -
  have ne: "q \<noteq> []" and all: "\<forall>c\<in>set q. is_digit c"
    and z: "q = ''0'' \<or> hd q \<noteq> CHR ''0''"
    using assms(1) by (auto simp: canonical_decimal_def filter_empty_conv)
  have p: "p = digits_value q"
    using assms(2) py_int_all_digits [OF ne all, of lim] by (simp split: if_splits)
  have nn: "0 \<le> p" using p all by (simp add: digits_value_nonneg)
  from z show ?thesis
  proof
    assume q0: "q = ''0''"
    then have "p = 0" using p by (simp add: digits_value_def digit_value_def)
    then show ?thesis
      using q0 by (simp add: py_str_def digits_of.simps [of 0] digit_char_def)
  next
    assume "hd q \<noteq> CHR ''0''"
    then have "digits_of (nat (digits_value q)) = q"
      using digits_of_digits_value [of q] all ne by simp
    then show ?thesis using nn p by (simp add: py_str_def)
  qed
qed

section \<open>Re-serialising the validated parameters\<close>

lemma get_rcon_params_Inr:
  assumes "get_rcon_params lim self = Inr params"
  shows "GUI.host self \<noteq> []" and "GUI.port self \<noteq> []" and "GUI.command self \<noteq> []"
    and "py_int lim (GUI.port self) = Some (port params)"
    and "0 \<le> port params" and "port params \<le> 65535"
    and "params = \<lparr>host = GUI.host self, port = port params, passwd = GUI.passwd self,
           command = GUI.command self\<rparr>"
  using assms
  by (auto simp: get_rcon_params_def split: if_splits option.splits)

text \<open>
  Claim C3, as stated. Re-serialising the parameters does not reproduce the raw port
  text in general: \<open>int\<close> reads \<open>080\<close> as 80, and \<open>str\<close> prints 80 as \<open>80\<close>. A sign,
  surrounding white space and underscores are lost in the same way.
\<close>

theorem serialize_leading_zero_counterexample:
  "get_rcon_params 4300 (example_gui ''h'' ''080'' ''pw'' ''status'')
     = Inr \<lparr>host = ''h'', port = 80, passwd = ''pw'', command = ''status''\<rparr>
   \<and> serialize \<lparr>host = ''h'', port = 80, passwd = ''pw'', command = ''status''\<rparr>
     = (''h'', ''80'', ''pw'', ''status'')
   \<and> serialize \<lparr>host = ''h'', port = 80, passwd = ''pw'', command = ''status''\<rparr>
     \<noteq> (''h'', ''080'', ''pw'', ''status'')"
  by (simp add: get_rcon_params_def py_int_eval example_gui_def serialize_def py_str_def
      digits_of.simps digit_char_def)

text \<open>
  Claim C3, amended. When validation succeeds, re-serialising reproduces host, password
  and command exactly, and a port text that validates again to the same parameters; the
  port text is the raw one exactly when the raw one is a canonical decimal numeral
  (digits only, no leading zero unless it is \<open>0\<close> itself).
\<close>

theorem serialize_roundtrip:
  assumes "get_rcon_params lim self = Inr params"
  shows "serialize params
           = (GUI.host self, py_str (port params), GUI.passwd self, GUI.command self)
       \<and> get_rcon_params lim (self\<lparr>GUI.port := py_str (port params)\<rparr>) = Inr params
       \<and> (py_str (port params) = GUI.port self \<longleftrightarrow> canonical_decimal (GUI.port self))"
proof -
  note v = get_rcon_params_Inr [OF assms]
  have s: "serialize params
      = (GUI.host self, py_str (port params), GUI.passwd self, GUI.command self)"
    by (subst v(7)) (simp add: serialize_def)
  note reparse = py_int_py_str [OF v(5,6), of lim]
  have ne: "py_str (port params) \<noteq> []"
    using canonical_py_str [OF v(5)] by (simp add: canonical_decimal_def)
  have r: "get_rcon_params lim (self\<lparr>GUI.port := py_str (port params)\<rparr>) = Inr params"
    using v(1,3,5,6) reparse ne by (subst (2) v(7)) (simp add: get_rcon_params_def)
  have c: "py_str (port params) = GUI.port self \<longleftrightarrow> canonical_decimal (GUI.port self)"
    using canonical_py_str [OF v(5)] py_str_of_canonical [OF _ v(4)] by auto
  show ?thesis using s r c by simp
qed

theorem serialize_roundtrip_witness:
  "serialize \<lparr>host = ''h'', port = 27015, passwd = ''pw'', command = ''status''\<rparr>
     = (''h'', ''27015'', ''pw'', ''status'')
   \<and> canonical_decimal ''27015''"
proof -
  have g: "get_rcon_params 4300 (example_gui ''h'' ''27015'' ''pw'' ''status'')
     = Inr \<lparr>host = ''h'', port = 27015, passwd = ''pw'', command = ''status''\<rparr>"
    by (simp add: get_rcon_params_def py_int_eval example_gui_def)
  have c: "canonical_decimal ''27015''"
    by (simp add: canonical_decimal_def is_digit_def)
  show ?thesis
    using serialize_roundtrip [OF g] c by (simp add: example_gui_fields)
qed

section \<open>The runner and its handler\<close>

lemma acquire_events:
  "acquire cl params w = (r, ev, w1) \<Longrightarrow>
     exit_calls ev = 0 \<and> run_calls ev = 0 \<and> filter is_show_error ev = []"
  by (auto simp: acquire_def Let_def exit_calls_def run_calls_def split: prod.splits sum.splits)

lemma run_body_events:
  "run_body cl params mgr client w = (r, ev, w1) \<Longrightarrow>
     \<exists>x. ev = [CallRun (command params), CallExit x]"
  by (auto simp: run_body_def split: prod.splits sum.splits if_splits)

lemma run_rcon_invalid:
  "get_rcon_params lim self = Inl e \<Longrightarrow> run_rcon cl lim self w = (Inl e, [], w)"
  by (simp add: run_rcon_def)

lemma on_button_clicked_raise:
  "run_rcon cl lim self w = (Inl e, ev, w1) \<Longrightarrow>
   on_button_clicked cl lim self w =
     (case e of
        ValueError args \<Rightarrow>
          (case join_args args of
             None \<Rightarrow> (Some (OtherError ''TypeError''), self, ev, w1)
           | Some m \<Rightarrow> (None, self, ev @ [ShowError m], w1))
      | ConnectionRefusedError \<Rightarrow> (None, self, ev @ [ShowError ''Connection refused.''], w1)
      | timeout \<Rightarrow> (None, self, ev @ [ShowError ''Connection timed out.''], w1)
      | RequestIdMismatch \<Rightarrow> (None, self, ev @ [ShowError ''Request ID mismatch.''], w1)
      | WrongPassword \<Rightarrow> (None, self, ev @ [ShowError ''Invalid password.''], w1)
      | OtherError n \<Rightarrow> (Some (OtherError n), self, ev, w1))"
  by (simp add: on_button_clicked_def split: exn.splits)

lemma with_Client_events:
  assumes "with_Client cl params w = (r, ev, w1)"
  shows "filter is_show_error ev = []
    \<and> run_calls ev = exit_calls ev
    \<and> exit_calls ev = (case fst (acquire cl params w) of Inl e \<Rightarrow> 0 | Inr s \<Rightarrow> 1)
    \<and> (\<forall>s. fst (acquire cl params w) = Inr s \<longrightarrow> (\<exists>x. last ev = CallExit x))"
proof -
  obtain a ev0 w0 where acq: "acquire cl params w = (a, ev0, w0)"
    by (cases "acquire cl params w") auto
  note e0 = acquire_events [OF acq]
  show ?thesis
  proof (cases a)
    case (Inl e)
    then have "ev = ev0" using assms acq by (simp add: with_Client_def)
    with e0 Inl acq show ?thesis by simp
  next
    case (Inr s)
    obtain mgr client where s: "s = (mgr, client)" by (cases s) auto
    obtain r' ev' w' where b: "run_body cl params mgr client w0 = (r', ev', w')"
      by (cases "run_body cl params mgr client w0") auto
    from run_body_events [OF b] obtain x where x: "ev' = [CallRun (command params), CallExit x]"
      by blast
    have "ev = ev0 @ ev'" using assms acq Inr s b by (simp add: with_Client_def)
    with e0 x Inr acq show ?thesis by (simp add: exit_calls_def run_calls_def)
  qed
qed

lemma run_rcon_no_show_error:
  "run_rcon cl lim self w = (r, ev, w1) \<Longrightarrow> filter is_show_error ev = []"
  by (cases "get_rcon_params lim self")
    (auto simp: run_rcon_def dest: with_Client_events)

lemmas run_eval = run_rcon_def with_Client_def acquire_def run_body_def double_client_def
  get_rcon_params_def py_int_eval example_gui_def fresh_world_def reply_players_def
  reply_mismatch_def reply_value_error_def reply_wrong_password_def

lemma example_params:
  "get_rcon_params 4300 (example_gui ''h'' ''27015'' pw ''status'')
     = Inr \<lparr>host = ''h'', port = 27015, passwd = pw, command = ''status''\<rparr>"
  by (simp add: get_rcon_params_def py_int_eval example_gui_def)

lemma run_players:
  "run_rcon (double_client None ''pw'' reply_players) 4300
       (example_gui ''h'' ''27015'' ''pw'' ''status'') fresh_world
     = (Inr (Some ''players: 3''),
        [CallInit ''h'' 27015 ''pw'', CallEnter, CallRun ''status'', CallExit None],
        \<lparr>opened = 1, closed = 1\<rparr>)"
  by (simp add: run_eval)

lemma run_mismatch:
  "run_rcon (double_client None ''pw'' reply_mismatch) 4300
       (example_gui ''h'' ''27015'' ''pw'' ''status'') fresh_world
     = (Inl RequestIdMismatch,
        [CallInit ''h'' 27015 ''pw'', CallEnter, CallRun ''status'',
         CallExit (Some RequestIdMismatch)],
        \<lparr>opened = 1, closed = 1\<rparr>)"
  by (simp add: run_eval)

lemma run_refused:
  "run_rcon (double_client (Some ConnectionRefusedError) ''pw'' reply_players) 4300
       (example_gui ''h'' ''27015'' ''pw'' ''status'') fresh_world
     = (Inl ConnectionRefusedError,
        [CallInit ''h'' 27015 ''pw'', CallEnter],
        \<lparr>opened = 0, closed = 0\<rparr>)"
  by (simp add: run_eval)

lemma run_wrong_password:
  "run_rcon (double_client None ''pw'' reply_players) 4300
       (example_gui ''h'' ''27015'' ''bad'' ''status'') fresh_world
     = (Inl WrongPassword, [CallInit ''h'' 27015 ''bad'', CallEnter],
        \<lparr>opened = 1, closed = 0\<rparr>)"
  by (simp add: run_eval)

lemma run_timeout:
  "run_rcon (double_client (Some timeout) ''pw'' reply_players) 4300
       (example_gui ''h'' ''27015'' ''pw'' ''status'') fresh_world
     = (Inl timeout, [CallInit ''h'' 27015 ''pw'', CallEnter], \<lparr>opened = 0, closed = 0\<rparr>)"
  by (simp add: run_eval)

lemma run_other:
  "run_rcon (double_client (Some (OtherError ''OSError'')) ''pw'' reply_players) 4300
       (example_gui ''h'' ''27015'' ''pw'' ''status'') fresh_world
     = (Inl (OtherError ''OSError''), [CallInit ''h'' 27015 ''pw'', CallEnter],
        \<lparr>opened = 0, closed = 0\<rparr>)"
  by (simp add: run_eval)

lemma run_no_command:
  "run_rcon (double_client None ''pw'' reply_players) 4300
       (example_gui ''h'' ''27015'' ''pw'' []) fresh_world
     = (Inl (ValueError [Str ''No command entered.'']), [], fresh_world)"
  by (simp add: run_rcon_def get_rcon_params_def example_gui_def)

lemma run_value_error:
  "run_rcon (double_client None ''pw'' reply_value_error) 4300
       (example_gui ''h'' ''27015'' ''pw'' ''status'') fresh_world
     = (Inl (ValueError [Str ''boom'']),
        [CallInit ''h'' 27015 ''pw'', CallEnter, CallRun ''status'',
         CallExit (Some (ValueError [Str ''boom'']))],
        \<lparr>opened = 1, closed = 1\<rparr>)"
  by (simp add: run_eval)

lemma run_wrong_password_in_run:
  "run_rcon (double_client None ''pw'' reply_wrong_password) 4300
       (example_gui ''h'' ''27015'' ''pw'' ''status'') fresh_world
     = (Inl WrongPassword,
        [CallInit ''h'' 27015 ''pw'', CallEnter, CallRun ''status'',
         CallExit (Some WrongPassword)],
        \<lparr>opened = 1, closed = 1\<rparr>)"
  by (simp add: run_eval)

lemma with_Client_acquire_raises:
  "acquire cl params w = (Inl e, ev, w1) \<Longrightarrow> with_Client cl params w = (Inl e, ev, w1)"
  by (simp add: with_Client_def)

lemma acquire_wrong_password:
  "acquire (double_client None ''pw'' reply_players)
       \<lparr>host = ''h'', port = 27015, passwd = ''bad'', command = ''status''\<rparr> fresh_world
     = (Inl WrongPassword, [CallInit ''h'' 27015 ''bad'', CallEnter],
        \<lparr>opened = 1, closed = 0\<rparr>)"
  by (simp add: acquire_def double_client_def fresh_world_def)

text \<open>
  Claim C1, as stated. The clause for \<open>ValueError\<close> encloses the whole of \<open>run_rcon\<close>,
  so it also catches a \<open>ValueError\<close> that the collaborator raises after validation
  has succeeded: a fault outside the five categories, which is shown in a dialog and
  does not reach the caller.
\<close>

theorem collaborator_value_error_counterexample:
  "get_rcon_params 4300 (example_gui ''h'' ''27015'' ''pw'' ''status'')
     = Inr \<lparr>host = ''h'', port = 27015, passwd = ''pw'', command = ''status''\<rparr>
   \<and> run_rcon (double_client None ''pw'' reply_value_error) 4300
         (example_gui ''h'' ''27015'' ''pw'' ''status'') fresh_world
     = (Inl (ValueError [Str ''boom'']),
        [CallInit ''h'' 27015 ''pw'', CallEnter, CallRun ''status'',
         CallExit (Some (ValueError [Str ''boom'']))],
        \<lparr>opened = 1, closed = 1\<rparr>)
   \<and> on_button_clicked (double_client None ''pw'' reply_value_error) 4300
         (example_gui ''h'' ''27015'' ''pw'' ''status'') fresh_world
     = (None, example_gui ''h'' ''27015'' ''pw'' ''status'',
        [CallInit ''h'' 27015 ''pw'', CallEnter, CallRun ''status'',
         CallExit (Some (ValueError [Str ''boom''])), ShowError ''boom''],
        \<lparr>opened = 1, closed = 1\<rparr>)"
  by (simp add: example_params run_value_error on_button_clicked_def)

text \<open>
  Claim C1, amended. A fault raised while the command runs is mapped by its class. A
  \<open>ValueError\<close> whose arguments are texts, be it a validation failure (which has its
  one message) or raised by the collaborator, shows its arguments joined by spaces; a
  refused connection, a timeout, a request id mismatch and a wrong password each show
  their fixed message; exactly one dialog is shown, after the calls on the collaborator.
  A fault of any other class leaves the handler as it came, and no dialog is shown.
\<close>

theorem fault_by_class:
  assumes "run_rcon cl lim self w = (Inl e, ev, w1)"
  shows "(get_rcon_params lim self = Inl e \<longrightarrow> (\<exists>m. e = ValueError [Str m]))
    \<and> (\<forall>args m. e = ValueError args \<and> join_args args = Some m \<longrightarrow>
          on_button_clicked cl lim self w = (None, self, ev @ [ShowError m], w1))
    \<and> (e = ConnectionRefusedError \<longrightarrow>
          on_button_clicked cl lim self w = (None, self, ev @ [ShowError ''Connection refused.''], w1))
    \<and> (e = timeout \<longrightarrow>
          on_button_clicked cl lim self w = (None, self, ev @ [ShowError ''Connection timed out.''], w1))
    \<and> (e = RequestIdMismatch \<longrightarrow>
          on_button_clicked cl lim self w = (None, self, ev @ [ShowError ''Request ID mismatch.''], w1))
    \<and> (e = WrongPassword \<longrightarrow>
          on_button_clicked cl lim self w = (None, self, ev @ [ShowError ''Invalid password.''], w1))
    \<and> (\<forall>n. e = OtherError n \<longrightarrow>
          on_button_clicked cl lim self w = (Some (OtherError n), self, ev, w1))
    \<and> filter is_show_error ev = []"
proof -
  have shape: "get_rcon_params lim self = Inl e \<longrightarrow> (\<exists>m. e = ValueError [Str m])"
    using get_rcon_params_Inl_shape [of lim self e] by blast
  note h = on_button_clicked_raise [OF assms]
  have quiet: "filter is_show_error ev = []"
    using assms by (rule run_rcon_no_show_error)
  have joined: "\<forall>args m. e = ValueError args \<and> join_args args = Some m \<longrightarrow>
      on_button_clicked cl lim self w = (None, self, ev @ [ShowError m], w1)"
    using h by auto
  show ?thesis
    using shape h quiet joined by simp
qed

theorem fault_by_class_witness:
  "on_button_clicked (double_client None ''pw'' reply_mismatch) 4300
       (example_gui ''h'' ''27015'' ''pw'' ''status'') fresh_world
     = (None, example_gui ''h'' ''27015'' ''pw'' ''status'',
        [CallInit ''h'' 27015 ''pw'', CallEnter, CallRun ''status'',
         CallExit (Some RequestIdMismatch), ShowError ''Request ID mismatch.''],
        \<lparr>opened = 1, closed = 1\<rparr>)
   \<and> on_button_clicked (double_client (Some ConnectionRefusedError) ''pw'' reply_players) 4300
       (example_gui ''h'' ''27015'' ''pw'' ''status'') fresh_world
     = (None, example_gui ''h'' ''27015'' ''pw'' ''status'',
        [CallInit ''h'' 27015 ''pw'', CallEnter, ShowError ''Connection refused.''],
        \<lparr>opened = 0, closed = 0\<rparr>)
   \<and> on_button_clicked (double_client (Some timeout) ''pw'' reply_players) 4300
       (example_gui ''h'' ''27015'' ''pw'' ''status'') fresh_world
     = (None, example_gui ''h'' ''27015'' ''pw'' ''status'',
        [CallInit ''h'' 27015 ''pw'', CallEnter, ShowError ''Connection timed out.''],
        \<lparr>opened = 0, closed = 0\<rparr>)
   \<and> on_button_clicked (double_client None ''pw'' reply_players) 4300
       (example_gui ''h'' ''27015'' ''bad'' ''status'') fresh_world
     = (None, example_gui ''h'' ''27015'' ''bad'' ''status'',
        [CallInit ''h'' 27015 ''bad'', CallEnter, ShowError ''Invalid password.''],
        \<lparr>opened = 1, closed = 0\<rparr>)
   \<and> on_button_clicked (double_client None ''pw'' reply_players) 4300
       (example_gui ''h'' ''27015'' ''pw'' []) fresh_world
     = (None, example_gui ''h'' ''27015'' ''pw'' [],
        [ShowError ''No command entered.''], fresh_world)
   \<and> on_button_clicked (double_client (Some (OtherError ''OSError'')) ''pw'' reply_players)
       4300 (example_gui ''h'' ''27015'' ''pw'' ''status'') fresh_world
     = (Some (OtherError ''OSError''), example_gui ''h'' ''27015'' ''pw'' ''status'',
        [CallInit ''h'' 27015 ''pw'', CallEnter], \<lparr>opened = 0, closed = 0\<rparr>)"
proof -
  note a = fault_by_class [OF run_mismatch]
  note b = fault_by_class [OF run_refused]
  note c = fault_by_class [OF run_timeout]
  note d = fault_by_class [OF run_wrong_password]
  note e = fault_by_class [OF run_no_command]
  note f = fault_by_class [OF run_other]
  have 1: "on_button_clicked (double_client None ''pw'' reply_mismatch) 4300
       (example_gui ''h'' ''27015'' ''pw'' ''status'') fresh_world
     = (None, example_gui ''h'' ''27015'' ''pw'' ''status'',
        [CallInit ''h'' 27015 ''pw'', CallEnter, CallRun ''status'',
         CallExit (Some RequestIdMismatch), ShowError ''Request ID mismatch.''],
        \<lparr>opened = 1, closed = 1\<rparr>)"
    using a by simp
  have 2: "on_button_clicked (double_client (Some ConnectionRefusedError) ''pw'' reply_players)
       4300 (example_gui ''h'' ''27015'' ''pw'' ''status'') fresh_world
     = (None, example_gui ''h'' ''27015'' ''pw'' ''status'',
        [CallInit ''h'' 27015 ''pw'', CallEnter, ShowError ''Connection refused.''],
        \<lparr>opened = 0, closed = 0\<rparr>)"
    using b by simp
  have 3: "on_button_clicked (double_client (Some timeout) ''pw'' reply_players) 4300
       (example_gui ''h'' ''27015'' ''pw'' ''status'') fresh_world
     = (None, example_gui ''h'' ''27015'' ''pw'' ''status'',
        [CallInit ''h'' 27015 ''pw'', CallEnter, ShowError ''Connection timed out.''],
        \<lparr>opened = 0, closed = 0\<rparr>)"
    using c by simp
  have 4: "on_button_clicked (double_client None ''pw'' reply_players) 4300
       (example_gui ''h'' ''27015'' ''bad'' ''status'') fresh_world
     = (None, example_gui ''h'' ''27015'' ''bad'' ''status'',
        [CallInit ''h'' 27015 ''bad'', CallEnter, ShowError ''Invalid password.''],
        \<lparr>opened = 1, closed = 0\<rparr>)"
    using d by simp
  have 5: "on_button_clicked (double_client None ''pw'' reply_players) 4300
       (example_gui ''h'' ''27015'' ''pw'' []) fresh_world
     = (None, example_gui ''h'' ''27015'' ''pw'' [],
        [ShowError ''No command entered.''], fresh_world)"
    using e by simp
  have 6: "on_button_clicked (double_client (Some (OtherError ''OSError'')) ''pw''
       reply_players) 4300 (example_gui ''h'' ''27015'' ''pw'' ''status'') fresh_world
     = (Some (OtherError ''OSError''), example_gui ''h'' ''27015'' ''pw'' ''status'',
        [CallInit ''h'' 27015 ''pw'', CallEnter], \<lparr>opened = 0, closed = 0\<rparr>)"
    using f by simp
  show ?thesis
    by (simp only: 1 2 3 4 5 6 simp_thms)
qed

text \<open>
  Claim C4, as stated. When the fault surfaces while the connection is acquired, in the
  constructor or in \<open>__enter__\<close>, the \<open>with\<close> statement does not call \<open>__exit__\<close>:
  with a collaborator that refuses the connection there, and with one that opens it and
  then rejects the password there, the runner releases nothing.
\<close>

theorem release_refused_counterexample:
  "fst (run_rcon (double_client (Some ConnectionRefusedError) ''pw'' reply_players) 4300
         (example_gui ''h'' ''27015'' ''pw'' ''status'') fresh_world)
     = Inl ConnectionRefusedError
   \<and> exit_calls (fst (snd (run_rcon (double_client (Some ConnectionRefusedError) ''pw''
         reply_players) 4300 (example_gui ''h'' ''27015'' ''pw'' ''status'') fresh_world)))
     \<noteq> 1
   \<and> run_rcon (double_client None ''pw'' reply_players) 4300
         (example_gui ''h'' ''27015'' ''bad'' ''status'') fresh_world
     = (Inl WrongPassword, [CallInit ''h'' 27015 ''bad'', CallEnter],
        \<lparr>opened = 1, closed = 0\<rparr>)
   \<and> exit_calls [CallInit ''h'' 27015 ''bad'', CallEnter] \<noteq> 1"
  by (simp add: run_refused run_wrong_password exit_calls_def)

text \<open>
  Claim C4, amended. On validated parameters, for any collaborator: when the
  connection is acquired (the constructor and \<open>__enter__\<close> return), \<open>__exit__\<close> is
  called exactly once, as the last call, whether the command returns or raises; when
  acquiring raises, \<open>__exit__\<close> is not called. So it is called as often as \<open>run\<close>, and
  never twice.
\<close>

theorem release_after_acquisition:
  assumes "get_rcon_params lim self = Inr params"
    and "run_rcon cl lim self w = (r, ev, w1)"
  shows "exit_calls ev = (case fst (acquire cl params w) of Inl e \<Rightarrow> 0 | Inr s \<Rightarrow> 1)
     \<and> (\<forall>s. fst (acquire cl params w) = Inr s \<longrightarrow> (\<exists>x. last ev = CallExit x))
     \<and> exit_calls ev = run_calls ev \<and> exit_calls ev \<le> 1"
proof -
  have "with_Client cl params w = (r, ev, w1)"
    using assms by (simp add: run_rcon_def)
  from with_Client_events [OF this] show ?thesis
    by (simp split: sum.splits)
qed

theorem release_after_acquisition_witness:
  "exit_calls [CallInit ''h'' 27015 ''pw'', CallEnter, CallRun ''status'',
       CallExit (Some RequestIdMismatch)] = 1
   \<and> exit_calls [CallInit ''h'' 27015 ''pw'', CallEnter, CallRun ''status'', CallExit None] = 1"
proof -
  have a: "fst (acquire (double_client None ''pw'' r)
       \<lparr>host = ''h'', port = 27015, passwd = ''pw'', command = ''status''\<rparr> fresh_world)
     = Inr ((''h'', 27015, ''pw''), ())" for r
    by (simp add: acquire_def double_client_def fresh_world_def)
  show ?thesis
    using release_after_acquisition [OF example_params run_mismatch]
      release_after_acquisition [OF example_params run_players]
    by (simp add: a)
qed

text \<open>
  Claim C5. When validation fails, the runner raises that failure without any call on
  the collaborator, the outside world is as before, and the handler shows the message.
\<close>

theorem validation_failure_no_network:
  assumes "get_rcon_params lim self = Inl e"
  shows "run_rcon cl lim self w = (Inl e, [], w)
       \<and> (\<exists>m. e = ValueError [Str m] \<and> on_button_clicked cl lim self w = (None, self, [ShowError m], w))"
proof -
  have r: "run_rcon cl lim self w = (Inl e, [], w)"
    using assms by (rule run_rcon_invalid)
  obtain m where m: "e = ValueError [Str m]"
    using get_rcon_params_Inl_shape [OF assms] by blast
  have "on_button_clicked cl lim self w = (None, self, [ShowError m], w)"
    using on_button_clicked_raise [OF r] by (simp add: m)
  with r m show ?thesis by blast
qed

theorem validation_failure_no_network_witness:
  "run_rcon (double_client None ''pw'' reply_players) 4300
       (example_gui [] ''27015'' ''pw'' ''status'') fresh_world
     = (Inl (ValueError [Str ''No host specified.'']), [], fresh_world)"
proof -
  have "get_rcon_params 4300 (example_gui [] ''27015'' ''pw'' ''status'')
      = Inl (ValueError [Str ''No host specified.''])"
    by (simp add: get_rcon_params_def example_gui_def)
  from validation_failure_no_network [OF this, THEN conjunct1] show ?thesis .
qed

text \<open>
  Claim C7, as stated. The handler catches \<open>WrongPassword\<close> from wherever it is raised.
  A collaborator that rejects the password only when the command is sent raises it from
  \<open>run\<close>, which has then been called once.
\<close>

theorem wrong_password_in_run_counterexample:
  "run_rcon (double_client None ''pw'' reply_wrong_password) 4300
       (example_gui ''h'' ''27015'' ''pw'' ''status'') fresh_world
     = (Inl WrongPassword,
        [CallInit ''h'' 27015 ''pw'', CallEnter, CallRun ''status'',
         CallExit (Some WrongPassword)],
        \<lparr>opened = 1, closed = 1\<rparr>)
   \<and> run_calls [CallInit ''h'' 27015 ''pw'', CallEnter, CallRun ''status'',
         CallExit (Some WrongPassword)] \<noteq> 0"
  by (simp add: run_wrong_password_in_run run_calls_def)

text \<open>
  Claim C7, amended. On validated parameters, for any collaborator: when the password
  is rejected while the connection is acquired (in the constructor or in \<open>__enter__\<close>),
  the runner raises \<open>WrongPassword\<close> and \<open>run\<close> is never called. Whenever the runner
  raises \<open>WrongPassword\<close>, the handler shows the message of an invalid password, and
  \<open>run\<close> was called at most once: not at all exactly when the rejection came while
  the connection was acquired.
\<close>

theorem wrong_password_handling:
  assumes "get_rcon_params lim self = Inr params"
  shows "(\<forall>ev w1. acquire cl params w = (Inl WrongPassword, ev, w1) \<longrightarrow>
            run_rcon cl lim self w = (Inl WrongPassword, ev, w1) \<and> run_calls ev = 0)
     \<and> (\<forall>ev w1. run_rcon cl lim self w = (Inl WrongPassword, ev, w1) \<longrightarrow>
            on_button_clicked cl lim self w
              = (None, self, ev @ [ShowError ''Invalid password.''], w1)
            \<and> (run_calls ev = 0 \<longleftrightarrow> fst (acquire cl params w) = Inl WrongPassword)
            \<and> run_calls ev \<le> 1)"
proof (intro conjI allI impI)
  fix ev w1
  assume a: "acquire cl params w = (Inl WrongPassword, ev, w1)"
  show "run_rcon cl lim self w = (Inl WrongPassword, ev, w1)"
    using assms with_Client_acquire_raises [OF a] by (simp add: run_rcon_def)
  show "run_calls ev = 0"
    using acquire_events [OF a] by simp
next
  fix ev w1
  assume r: "run_rcon cl lim self w = (Inl WrongPassword, ev, w1)"
  then have wc: "with_Client cl params w = (Inl WrongPassword, ev, w1)"
    using assms by (simp add: run_rcon_def)
  note calls = with_Client_events [OF wc]
  show "on_button_clicked cl lim self w
      = (None, self, ev @ [ShowError ''Invalid password.''], w1)"
    using on_button_clicked_raise [OF r] by simp
  show "run_calls ev \<le> 1"
    using calls by (simp split: sum.splits)
  show "run_calls ev = 0 \<longleftrightarrow> fst (acquire cl params w) = Inl WrongPassword"
  proof (cases "acquire cl params w")
    case (fields a ev0 w0)
    show ?thesis
    proof (cases a)
      case (Inl e)
      from with_Client_acquire_raises [of cl params w e ev0 w0] fields Inl wc
      have "e = WrongPassword" by simp
      then show ?thesis using calls fields Inl by simp
    next
      case (Inr s)
      then show ?thesis using calls fields by simp
    qed
  qed
qed

theorem wrong_password_handling_witness:
  "on_button_clicked (double_client None ''pw'' reply_players) 4300
       (example_gui ''h'' ''27015'' ''bad'' ''status'') fresh_world
     = (None, example_gui ''h'' ''27015'' ''bad'' ''status'',
        [CallInit ''h'' 27015 ''bad'', CallEnter, ShowError ''Invalid password.''],
        \<lparr>opened = 1, closed = 0\<rparr>)
   \<and> run_calls [CallInit ''h'' 27015 ''bad'', CallEnter] = 0
   \<and> on_button_clicked (double_client None ''pw'' reply_wrong_password) 4300
       (example_gui ''h'' ''27015'' ''pw'' ''status'') fresh_world
     = (None, example_gui ''h'' ''27015'' ''pw'' ''status'',
        [CallInit ''h'' 27015 ''pw'', CallEnter, CallRun ''status'',
         CallExit (Some WrongPassword), ShowError ''Invalid password.''],
        \<lparr>opened = 1, closed = 1\<rparr>)"
proof -
  note t = wrong_password_handling [OF example_params,
      of "double_client None ''pw'' reply_players" "''bad''" fresh_world]
  note u = wrong_password_handling [OF example_params,
      of "double_client None ''pw'' reply_wrong_password" "''pw''" fresh_world]
  have 1: "on_button_clicked (double_client None ''pw'' reply_players) 4300
       (example_gui ''h'' ''27015'' ''bad'' ''status'') fresh_world
     = (None, example_gui ''h'' ''27015'' ''bad'' ''status'',
        [CallInit ''h'' 27015 ''bad'', CallEnter, ShowError ''Invalid password.''],
        \<lparr>opened = 1, closed = 0\<rparr>)"
    using t run_wrong_password by simp
  have 2: "run_calls [CallInit ''h'' 27015 ''bad'', CallEnter] = 0"
    using t acquire_wrong_password by simp
  have 3: "on_button_clicked (double_client None ''pw'' reply_wrong_password) 4300
       (example_gui ''h'' ''27015'' ''pw'' ''status'') fresh_world
     = (None, example_gui ''h'' ''27015'' ''pw'' ''status'',
        [CallInit ''h'' 27015 ''pw'', CallEnter, CallRun ''status'',
         CallExit (Some WrongPassword), ShowError ''Invalid password.''],
        \<lparr>opened = 1, closed = 1\<rparr>)"
    using u run_wrong_password_in_run by simp
  show ?thesis
    by (simp only: 1 2 3 simp_thms)
qed

text \<open>
  Claim C10. The handler changes the window only when the runner returns a text, which
  becomes the result; after a validation failure or any fault the window, its result
  field included, is as before.
\<close>

theorem result_kept_on_failure:
  "fst (snd (on_button_clicked cl lim self w)) =
     (case fst (run_rcon cl lim self w) of
        Inl e \<Rightarrow> self
      | Inr None \<Rightarrow> self
      | Inr (Some text) \<Rightarrow> self\<lparr>result := text\<rparr>)"
proof (cases "run_rcon cl lim self w")
  case (fields r ev w1)
  show ?thesis
  proof (cases r)
    case (Inl e)
    with fields show ?thesis
      using on_button_clicked_raise [of cl lim self w e ev w1]
      by (simp split: exn.splits option.splits)
  next
    case (Inr v)
    with fields show ?thesis
      by (cases v) (simp_all add: on_button_clicked_def)
  qed
qed

theorem result_kept_on_failure_witness:
  "fst (snd (on_button_clicked (double_client (Some ConnectionRefusedError) ''pw''
         reply_players) 4300 (example_gui ''h'' ''27015'' ''pw'' ''status'') fresh_world))
     = example_gui ''h'' ''27015'' ''pw'' ''status''
   \<and> result (fst (snd (on_button_clicked (double_client None ''pw'' reply_players) 4300
         (example_gui ''h'' ''27015'' ''pw'' ''status'') fresh_world)))
     = ''players: 3''"
  using result_kept_on_failure [of "double_client (Some ConnectionRefusedError) ''pw''
         reply_players" 4300 "example_gui ''h'' ''27015'' ''pw'' ''status''" fresh_world]
    result_kept_on_failure [of "double_client None ''pw'' reply_players" 4300
         "example_gui ''h'' ''27015'' ''pw'' ''status''" fresh_world]
  by (simp add: run_refused run_players)

section \<open>Saving and loading the settings\<close>

lemma gui_settings_lookup:
  "gui_settings self ''host'' = Some (JStr (GUI.host self))"
  "gui_settings self ''port'' = Some (JStr (GUI.port self))"
  "gui_settings self ''command'' = Some (JStr (GUI.command self))"
  "gui_settings self ''result'' = Some (JStr (result self))"
  "gui_settings self ''savepw'' = Some (JBool (savepw self))"
  "gui_settings self ''passwd'' = (if savepw self then Some (JStr (GUI.passwd self)) else None)"
  by (simp_all add: gui_settings_def Let_def)

text \<open>
  Claim C8. Setting the settings that the getter built, on any window, gives back host,
  port, command, result and the save-password state; the password too when it is to be
  saved, and otherwise the key \<open>passwd\<close> is absent and the field is set empty.
\<close>

theorem settings_roundtrip:
  fixes self other :: GUI
  shows "set_gui_settings (gui_settings self) other
           = (None, self\<lparr>GUI.passwd := (if savepw self then GUI.passwd self else [])\<rparr>)
       \<and> gui_settings self ''passwd''
           = (if savepw self then Some (JStr (GUI.passwd self)) else None)
       \<and> dom (gui_settings self)
           = {''host'', ''port'', ''command'', ''result'', ''savepw''}
               \<union> (if savepw self then {''passwd''} else {})"
proof -
  have a: "set_gui_settings (gui_settings self) other
           = (None, self\<lparr>GUI.passwd := (if savepw self then GUI.passwd self else [])\<rparr>)"
    by (cases self; cases other)
      (simp add: set_gui_settings_def gui_settings_lookup get_text_arg_def truth_def)
  have b: "dom (gui_settings self)
           = {''host'', ''port'', ''command'', ''result'', ''savepw''}
               \<union> (if savepw self then {''passwd''} else {})"
    by (simp add: gui_settings_def Let_def insert_commute)
  show ?thesis using a b by (simp add: gui_settings_lookup)
qed

theorem settings_roundtrip_witness:
  "set_gui_settings (gui_settings (example_gui ''h'' ''27015'' ''pw'' ''status''))
       (example_gui [] [] [] [])
     = (None, example_gui ''h'' ''27015'' [] ''status'')
   \<and> gui_settings (example_gui ''h'' ''27015'' ''pw'' ''status'') ''passwd'' = None
   \<and> set_gui_settings
         (gui_settings ((example_gui ''h'' ''27015'' ''pw'' ''status'')\<lparr>savepw := True\<rparr>))
         (example_gui [] [] [] [])
     = (None, (example_gui ''h'' ''27015'' ''pw'' ''status'')\<lparr>savepw := True\<rparr>)"
  using settings_roundtrip [of "example_gui ''h'' ''27015'' ''pw'' ''status''"
      "example_gui [] [] [] []"]
    settings_roundtrip [of "(example_gui ''h'' ''27015'' ''pw'' ''status'')\<lparr>savepw := True\<rparr>"
      "example_gui [] [] [] []"]
  by (simp add: example_gui_def)

end
